theory Spec2Isabelle
  imports Complex_Main "HOL-Library.AList"
begin

section \<open>JavaScript strings and values\<close>



definition is_js_space :: "char \<Rightarrow> bool" where
  "is_js_space c = (c \<in> set [CHR 0x09, CHR 0x0A, CHR 0x0B, CHR 0x0C, CHR 0x0D, CHR 0x20, CHR 0xA0])"

text \<open>\<open>String.prototype.trim\<close>: blanks and line terminators go from both ends.\<close>

definition js_trim :: "string \<Rightarrow> string" where
  "js_trim s = rev (dropWhile is_js_space (rev (dropWhile is_js_space s)))"


text \<open>\<open>s.split(",")\<close> for a one-character separator.\<close>

fun js_split :: "char \<Rightarrow> string \<Rightarrow> string list" where
  "js_split d [] = [[]]"
| "js_split d (c # cs) =
     (if c = d then [] # js_split d cs
      else (case js_split d cs of
              [] \<Rightarrow> [[c]]
            | l # ls \<Rightarrow> (c # l) # ls))"

text \<open>\<open>xs.join(",")\<close>.\<close>

fun js_join :: "char \<Rightarrow> string list \<Rightarrow> string" where
  "js_join d [] = []"
| "js_join d [x] = x"
| "js_join d (x # y # ys) = x @ d # js_join d (y # ys)"


text \<open>\<open>String(n)\<close> for a natural number: its decimal digits.\<close>

definition digit_char :: "nat \<Rightarrow> char" where
  "digit_char d = char_of (of_char (CHR ''0'') + d)"

fun show_nat :: "nat \<Rightarrow> string" where
  "show_nat n = (if n < 10 then [digit_char n] else show_nat (n div 10) @ [digit_char (n mod 10)])"

definition show_int :: "int \<Rightarrow> string" where
  "show_int i = (if i < 0 then CHR ''-'' # show_nat (nat (- i)) else show_nat (nat i))"

text \<open>An object with numeric keys (\<open>Record<number, T>\<close>) is an association list with
  one entry for each key: \<open>obj[k]\<close> is \<open>map_of obj k\<close>, the spread
  \<open>{...obj, [k]: v}\<close> is \<open>AList.update k v obj\<close>, and \<open>Object.keys(obj)\<close> is
  \<open>map fst obj\<close>.\<close>

type_synonym 'v js_record = "(nat \<times> 'v) list"

text \<open>
  \<open>parseInt(s)\<close> with no radix: leading blanks are skipped, one sign is read, a
  \<open>0x\<close> or \<open>0X\<close> prefix selects base 16, and the longest run of digits of the base is
  the number; with no digit the result is \<open>NaN\<close>, here \<open>None\<close>. The model computes the
  exact integer, where JavaScript rounds a number beyond 53 bits to a double.
\<close>

definition digit_val :: "char \<Rightarrow> nat option" where
  "digit_val c =
     (let k = (of_char c :: nat) in
      if 48 \<le> k \<and> k \<le> 57 then Some (k - 48)
      else if 97 \<le> k \<and> k \<le> 102 then Some (k - 87)
      else if 65 \<le> k \<and> k \<le> 70 then Some (k - 55)
      else None)"

definition is_digit_of :: "nat \<Rightarrow> char \<Rightarrow> bool" where
  "is_digit_of R c = (case digit_val c of None \<Rightarrow> False | Some v \<Rightarrow> v < R)"

definition digits_value :: "nat \<Rightarrow> string \<Rightarrow> nat" where
  "digits_value R z = foldl (\<lambda>acc c. acc * R + (case digit_val c of None \<Rightarrow> 0 | Some v \<Rightarrow> v)) 0 z"

definition parseInt :: "string \<Rightarrow> int option" where
  "parseInt inputString =
     (let S = dropWhile is_js_space inputString;
          sign = (if S \<noteq> [] \<and> hd S = CHR ''-'' then - 1 else (1::int));
          S1 = (if S \<noteq> [] \<and> (hd S = CHR ''+'' \<or> hd S = CHR ''-'') then tl S else S);
          hex = (take 2 S1 = ''0x'' \<or> take 2 S1 = ''0X'');
          R = (if hex then 16 else 10);
          S2 = (if hex then drop 2 S1 else S1);
          Z = takeWhile (is_digit_of R) S2
      in if Z = [] then None else Some (sign * int (digits_value R Z)))"

section \<open>Quiz generation form\<close>

definition maxQuestions :: int where
  "maxQuestions = 50"

text \<open>The \<open>onChange\<close> handler of the question-count input:
  \<open>Math.min(maxQuestions, Math.max(1, parseInt(e.target.value) || 1))\<close>.
  \<open>NaN\<close> and \<open>0\<close> are falsy, so \<open>||\<close> replaces both by \<open>1\<close>.\<close>

definition or_one :: "int option \<Rightarrow> int" where
  "or_one v = (case v of None \<Rightarrow> 1 | Some n \<Rightarrow> if n = 0 then 1 else n)"

definition questionCount_onChange :: "string \<Rightarrow> int" where
  "questionCount_onChange v = min maxQuestions (max 1 (or_one (parseInt v)))"


subsection \<open>Effects of a handler\<close>

text \<open>A handler returns the new component state and what it did, in order: the
  notifications shown, the requests sent to the backend, the navigations and the
  console errors.\<close>

record toast =
  title :: string
  description :: string
  destructive :: bool

datatype 'r effect =
    Toast toast
  | Request 'r
  | Navigate string
  | ConsoleError string

fun requests_of :: "'r effect list \<Rightarrow> 'r list" where
  "requests_of [] = []"
| "requests_of (Request r # fx) = r # requests_of fx"
| "requests_of (_ # fx) = requests_of fx"

fun toasts_of :: "'r effect list \<Rightarrow> toast list" where
  "toasts_of [] = []"
| "toasts_of (Toast t # fx) = t # toasts_of fx"
| "toasts_of (_ # fx) = toasts_of fx"

fun navigations_of :: "'r effect list \<Rightarrow> string list" where
  "navigations_of [] = []"
| "navigations_of (Navigate p # fx) = p # navigations_of fx"
| "navigations_of (_ # fx) = navigations_of fx"

subsection \<open>Form state\<close>

record questionTypes =
  mcq :: bool
  tf :: bool
  short :: bool
  long :: bool

record pdf_file =
  file_name :: string
  file_type :: string

record form_state =
  questionCount :: int
  questionTypes :: questionTypes
  difficulty :: string
  urlsText :: string
  urlsList :: "string list"
  files :: "pdf_file list"
  loading :: bool

definition initial_form :: form_state where
  "initial_form =
     \<lparr>questionCount = 15,
      questionTypes = \<lparr>mcq = True, tf = True, short = False, long = False\<rparr>,
      difficulty = ''medium'',
      urlsText = [],
      urlsList = [],
      files = [],
      loading = False\<rparr>"

subsection \<open>URL intake\<close>


text \<open>What the form could read of a \<open>URL\<close> object: its scheme with the colon, and its
  host, empty when the URL has none.\<close>

record url =
  protocol :: string
  host :: string









subsection \<open>Generation\<close>

text \<open>The request \<open>generateQuiz\<close> posts: multipart form data when files are present
  (files, urls, \<open>num_questions\<close>, \<open>question_types\<close>, \<open>difficulty\<close>, \<open>test_name\<close>), a
  JSON body otherwise (the same without files). The form sends \<open>question_types\<close> as
  the JSON text of the list; the model keeps the list.\<close>

datatype gen_request =
    Multipart "pdf_file list" "string list" string "string list" string string
  | Json "string list" int "string list" string string

text \<open>The body of a generation response, as far as the form reads it; \<open>None\<close> is a
  field that is missing (or \<open>null\<close>).\<close>

record gen_data =
  test_id :: "string option"
  quiz_id :: "string option"
  id_field :: "string option"

text \<open>What awaiting \<open>generateQuiz\<close> gives: a rejection carrying the error's message, if
  it has one, or the response with its body, if it has one.\<close>

datatype gen_outcome =
    Rejected "string option"
  | Resolved "gen_data option"

text \<open>\<open>a || b\<close> on optional strings: \<open>a\<close> when it is truthy (there and not empty),
  else \<open>b\<close>.\<close>

definition truthy :: "string option \<Rightarrow> bool" where
  "truthy v = (case v of None \<Rightarrow> False | Some x \<Rightarrow> x \<noteq> [])"

definition js_or :: "string option \<Rightarrow> string option \<Rightarrow> string option" where
  "js_or a b = (if truthy a then a else b)"

definition extract_testId :: "gen_data option \<Rightarrow> string option" where
  "extract_testId d =
     (case d of
        None \<Rightarrow> None
      | Some r \<Rightarrow> js_or (js_or (test_id r) (quiz_id r)) (id_field r))"

definition selectedTypes :: "questionTypes \<Rightarrow> string list" where
  "selectedTypes qt =
     map fst (filter snd [(''mcq'', mcq qt), (''tf'', tf qt), (''short'', short qt), (''long'', long qt)])"

definition typeMapping :: "string \<Rightarrow> string" where
  "typeMapping t =
     (if t = ''mcq'' then ''mcq''
      else if t = ''tf'' then ''true_false''
      else if t = ''short'' then ''short_answer''
      else if t = ''long'' then ''long_answer''
      else t)"

definition gen_failed_toast :: "string option \<Rightarrow> toast" where
  "gen_failed_toast msg =
     \<lparr>title = ''Generation failed'',
      description = (if truthy msg then the msg else ''Please try again or check your inputs.''),
      destructive = True\<rparr>"

text \<open>The request \<open>handleGenerateQuiz\<close> builds once both checks have passed; \<open>now\<close> is
  \<open>new Date().toLocaleString()\<close>. The multipart form carries the count through
  \<open>String(questionCount)\<close>.\<close>

definition build_request :: "string \<Rightarrow> form_state \<Rightarrow> gen_request" where
  "build_request now s =
     (let backendTypes = map typeMapping (selectedTypes (questionTypes s));
          test_name = ''Quiz - '' @ now
      in if length (files s) > 0
         then Multipart (files s) (urlsList s) (show_int (questionCount s))
                backendTypes (difficulty s) test_name
         else Json (urlsList s) (questionCount s) backendTypes (difficulty s) test_name)"

text \<open>\<open>handleGenerateQuiz\<close>. \<open>server\<close> answers the one request the handler may send.\<close>

definition handleGenerateQuiz ::
  "(gen_request \<Rightarrow> gen_outcome) \<Rightarrow> string \<Rightarrow> form_state \<Rightarrow> form_state \<times> gen_request effect list" where
  "handleGenerateQuiz server now s =
     (if length (urlsList s) = 0 \<and> length (files s) = 0
      then (s, [Toast \<lparr>title = ''Add content'',
                        description = ''Please paste links or upload at least one PDF.'',
                        destructive = True\<rparr>])
      else if length (selectedTypes (questionTypes s)) = 0
      then (s\<lparr>loading := False\<rparr>,
            [Toast \<lparr>title = ''Select question types'',
                     description = ''Please select at least one question type.'',
                     destructive = True\<rparr>])
      else
        (let req = build_request now s
         in case server req of
              Rejected msg \<Rightarrow>
                (s\<lparr>loading := False\<rparr>,
                 [Request req, ConsoleError ''Error in generateQuiz:'',
                  ConsoleError ''Generate quiz error:'', Toast (gen_failed_toast msg)])
            | Resolved d \<Rightarrow>
                (if truthy (extract_testId d)
                 then (s\<lparr>urlsList := [], files := [], urlsText := [], loading := False\<rparr>,
                       [Request req,
                        Toast \<lparr>title = ''Quiz Generated!'',
                               description = ''Starting your quiz now...'',
                               destructive = False\<rparr>,
                        Navigate (''/take-quiz/'' @ the (extract_testId d))])
                 else (s\<lparr>loading := False\<rparr>,
                       [Request req, ConsoleError ''Generate quiz error:'',
                        Toast (gen_failed_toast (Some ''No test ID received from server''))]))))"

definition hasContent :: "form_state \<Rightarrow> bool" where
  "hasContent s = (length (urlsList s) > 0 \<or> length (files s) > 0)"

definition hasQuestionTypes :: "form_state \<Rightarrow> bool" where
  "hasQuestionTypes s =
     (let qt = questionTypes s in list_ex (\<lambda>b. b) [mcq qt, tf qt, short qt, long qt])"

definition canGenerate :: "form_state \<Rightarrow> bool" where
  "canGenerate s = (hasContent s \<and> hasQuestionTypes s \<and> \<not> loading s)"


section \<open>Quiz taking\<close>

text \<open>
  The state of \<open>TakeQuiz\<close>. \<open>timeRemaining\<close> is \<open>None\<close> for \<open>null\<close>. The component
  reads its state through the closures of a render: the countdown effect depends on
  \<open>[timeRemaining, isSubmitted]\<close> only, so the interval it starts keeps the
  \<open>handleAutoSubmit\<close> of the render in which one of the two last changed, and with it
  that render's \<open>answers\<close> and \<open>isSubmitted\<close>. \<open>timer\<close> is that running interval
  with the values it closed over; \<open>None\<close> when the effect returned early and no interval
  runs. \<open>numQuestions\<close> is \<open>testData.test_data.length\<close>, \<open>0\<close> before the test has
  arrived. \<open>estimated_time\<close> is taken in whole minutes.
\<close>

record timer_closure =
  closure_answers :: "string js_record"
  closure_isSubmitted :: bool

record quiz_state =
  numQuestions :: nat
  currentQuestion :: nat
  answers :: "string js_record"
  timeRemaining :: "int option"
  isSubmitted :: bool
  timer :: "timer_closure option"

text \<open>What \<open>submitMutation.mutate({ answers })\<close> sends: the answer map, and
  \<open>submissionData.scores || {}\<close>.\<close>

record submit_request =
  sub_answers :: "string js_record"
  sub_scores :: "rat js_record"

definition initial_quiz :: quiz_state where
  "initial_quiz =
     \<lparr>numQuestions = 0, currentQuestion = 0, answers = [], timeRemaining = None,
      isSubmitted = False, timer = None\<rparr>"

text \<open>The countdown effect, run after a render in which \<open>timeRemaining\<close> or
  \<open>isSubmitted\<close> changed: the old interval is cleared, and a new one is started unless
  the effect returns early.\<close>

definition countdown_effect :: "quiz_state \<Rightarrow> quiz_state" where
  "countdown_effect s =
     (case timeRemaining s of
        None \<Rightarrow> s\<lparr>timer := None\<rparr>
      | Some t \<Rightarrow>
          if t \<le> 0 \<or> isSubmitted s then s\<lparr>timer := None\<rparr>
          else s\<lparr>timer := Some \<lparr>closure_answers = answers s,
                                  closure_isSubmitted = isSubmitted s\<rparr>\<rparr>)"

text \<open>A state update followed by the render it causes: the countdown effect runs again
  only if one of its dependencies changed.\<close>

definition rerender :: "quiz_state \<Rightarrow> quiz_state \<Rightarrow> quiz_state" where
  "rerender old new =
     (if timeRemaining new \<noteq> timeRemaining old \<or> isSubmitted new \<noteq> isSubmitted old
      then countdown_effect new else new)"

text \<open>The test data arrives, with its estimated time and its number of questions: the
  initialising effect sets the countdown once, if \<open>estimated_time\<close> is truthy.\<close>

definition loadTest :: "int \<Rightarrow> nat \<Rightarrow> quiz_state \<Rightarrow> quiz_state" where
  "loadTest estimated_time n s =
     (let s1 = s\<lparr>numQuestions := n\<rparr> in
      if estimated_time \<noteq> 0 \<and> timeRemaining s1 = None
      then rerender s1 (s1\<lparr>timeRemaining := Some (estimated_time * 60)\<rparr>)
      else s1)"

definition handleSubmit_with :: "string js_record \<Rightarrow> submit_request effect list" where
  "handleSubmit_with ans = [Request \<lparr>sub_answers = ans, sub_scores = []\<rparr>]"

definition handleAutoSubmit :: "timer_closure \<Rightarrow> submit_request effect list" where
  "handleAutoSubmit cl =
     (if \<not> closure_isSubmitted cl
      then Toast \<lparr>title = ''Time's up!'',
                  description = ''Your test is being submitted automatically.'',
                  destructive = True\<rparr> # handleSubmit_with (closure_answers cl)
      else [])"

text \<open>One second passes: the interval, if one runs, calls the updater of
  \<open>setTimeRemaining\<close> with the current value.\<close>

definition tick :: "quiz_state \<Rightarrow> quiz_state \<times> submit_request effect list" where
  "tick s =
     (case timer s of
        None \<Rightarrow> (s, [])
      | Some cl \<Rightarrow>
          (case timeRemaining s of
             None \<Rightarrow> (rerender s (s\<lparr>timeRemaining := Some 0\<rparr>), handleAutoSubmit cl)
           | Some prev \<Rightarrow>
               if prev \<le> 1
               then (rerender s (s\<lparr>timeRemaining := Some 0\<rparr>), handleAutoSubmit cl)
               else (rerender s (s\<lparr>timeRemaining := Some (prev - 1)\<rparr>), [])))"

text \<open>The manual path: the Submit button of the confirmation dialog calls the
  \<open>handleSubmit\<close> of the current render.\<close>

definition handleSubmit :: "quiz_state \<Rightarrow> quiz_state \<times> submit_request effect list" where
  "handleSubmit s = (s, handleSubmit_with (answers s))"

text \<open>\<open>onSuccess\<close> of the submission.\<close>

definition submit_onSuccess :: "string \<Rightarrow> quiz_state \<Rightarrow> quiz_state \<times> submit_request effect list" where
  "submit_onSuccess submission_id s =
     (rerender s (s\<lparr>isSubmitted := True\<rparr>),
      [Toast \<lparr>title = ''Test submitted successfully!'', description = [], destructive = False\<rparr>,
       Navigate (''/quiz-results/'' @ submission_id)])"

definition handleAnswerChange :: "string \<Rightarrow> quiz_state \<Rightarrow> quiz_state" where
  "handleAnswerChange v s =
     rerender s (s\<lparr>answers := AList.update (currentQuestion s) v (answers s)\<rparr>)"

text \<open>The selections a stored multi-select answer stands for, as both the handler and
  the checkboxes read it: \<open>answers[currentQuestion] ? answers[currentQuestion].split(",") : []\<close>.\<close>

definition currentSelections :: "quiz_state \<Rightarrow> string list" where
  "currentSelections s =
     (let currentAnswer = (case map_of (answers s) (currentQuestion s) of
                             None \<Rightarrow> []
                           | Some a \<Rightarrow> a)
      in if currentAnswer \<noteq> [] then js_split (CHR '','') currentAnswer else [])"

definition handleMultiSelectChange :: "string \<Rightarrow> bool \<Rightarrow> quiz_state \<Rightarrow> quiz_state" where
  "handleMultiSelectChange option checked s =
     (let newSelections = (if checked then currentSelections s @ [option]
                           else filter (\<lambda>sel. sel \<noteq> option) (currentSelections s))
      in rerender s
           (s\<lparr>answers := AList.update (currentQuestion s) (js_join (CHR '','') newSelections)
                           (answers s)\<rparr>))"

text \<open>Whether the checkbox of an option key shows checked.\<close>

definition multi_checked :: "quiz_state \<Rightarrow> string \<Rightarrow> bool" where
  "multi_checked s key = (key \<in> set (currentSelections s))"

definition goToQuestion :: "int \<Rightarrow> quiz_state \<Rightarrow> quiz_state" where
  "goToQuestion index s =
     (if index \<ge> 0 \<and> index < int (numQuestions s)
      then rerender s (s\<lparr>currentQuestion := nat index\<rparr>) else s)"

text \<open>What happens while a quiz is in progress: a second passes, or the user answers or
  moves to another question.\<close>

datatype quiz_event =
    Tick
  | AnswerChange string
  | MultiSelectChange string bool
  | GoToQuestion int

fun quiz_step :: "quiz_event \<Rightarrow> quiz_state \<Rightarrow> quiz_state \<times> submit_request effect list" where
  "quiz_step Tick s = tick s"
| "quiz_step (AnswerChange v) s = (handleAnswerChange v s, [])"
| "quiz_step (MultiSelectChange option checked) s = (handleMultiSelectChange option checked s, [])"
| "quiz_step (GoToQuestion index) s = (goToQuestion index s, [])"

fun run_quiz :: "quiz_event list \<Rightarrow> quiz_state \<Rightarrow> quiz_state \<times> submit_request effect list" where
  "run_quiz [] s = (s, [])"
| "run_quiz (e # es) s =
     (let (s1, fx1) = quiz_step e s; (s2, fx2) = run_quiz es s1 in (s2, fx1 @ fx2))"

text \<open>The seconds that pass in a run.\<close>

definition ticks_in :: "quiz_event list \<Rightarrow> nat" where
  "ticks_in evs = length (filter (\<lambda>e. e = Tick) evs)"

text \<open>The countdown with \<open>t\<close> seconds left: while \<open>t\<close> is positive an interval runs that
  closed over \<open>isSubmitted = false\<close>, and at \<open>0\<close> none runs.\<close>

definition phase :: "nat \<Rightarrow> quiz_state \<Rightarrow> bool" where
  "phase t s =
     (timeRemaining s = Some (int t) \<and> \<not> isSubmitted s \<and>
      (if t = 0 then timer s = None
       else map_option closure_isSubmitted (timer s) = Some False))"


section \<open>Chat\<close>

text \<open>\<open>ChatPage\<close> and the floating \<open>ContextAwareChatbot\<close> define \<open>sendMessage\<close>,
  \<open>updateChatContext\<close> and \<open>clearChat\<close> with the same text; one model stands for
  both.\<close>

datatype sender = User | Ai

record ChatMessage =
  msg_id :: string
  msg_type :: sender
  message :: string
  timestamp :: string
  context_type :: "string option"

record ChatContext =
  folder_id :: "string option"
  selected_link_ids :: "string list"
  selected_test_ids :: "string list"
  selected_submission_ids :: "string list"

record chat_state =
  messages :: "ChatMessage list"
  inputMessage :: string
  isLoading :: bool
  sessionId :: string
  chat_context :: ChatContext

datatype chat_request =
    UpdateContext ChatContext string
  | SendChatMessage string string
  | ClearChatHistory string

text \<open>The reply of \<open>/api/chat/message\<close>.\<close>

record chat_reply =
  response :: string
  reply_timestamp :: string
  reply_context_type :: "string option"

text \<open>The clock at one moment: \<open>Date.now()\<close> and \<open>new Date().toISOString()\<close>.\<close>

record clock =
  now_ms :: nat
  now_iso :: string

text \<open>\<open>Object.keys(context).length\<close>: the three id lists are always there,
  \<open>folder_id\<close> when a folder is chosen.\<close>

definition Object_keys_length :: "ChatContext \<Rightarrow> nat" where
  "Object_keys_length c = (case folder_id c of None \<Rightarrow> 3 | Some _ \<Rightarrow> 4)"

text \<open>The component's \<open>updateChatContext\<close>: it catches what the backend call throws
  and logs it, so it never throws itself. \<open>ok\<close> is whether the backend call resolved.\<close>

definition updateChatContext :: "bool \<Rightarrow> ChatContext \<Rightarrow> chat_state \<Rightarrow> chat_state \<times> chat_request effect list" where
  "updateChatContext ok newContext s =
     (if ok then (s\<lparr>chat_context := newContext\<rparr>, [Request (UpdateContext newContext (sessionId s))])
      else (s, [Request (UpdateContext newContext (sessionId s)),
                ConsoleError ''Error updating chat context:'',
                ConsoleError ''Error updating chat context:'']))"

definition error_text :: string where
  "error_text = ''S'' @ ''orry, I encountered an error. Please try again.''"

text \<open>\<open>sendMessage\<close>. \<open>ctx_ok\<close> is whether the context push resolves, \<open>reply\<close> what the
  message call gives (\<open>None\<close> when it rejects); \<open>t0\<close> is the clock at the call and \<open>t1\<close>
  the clock when the message call has settled.\<close>

definition sendMessage ::
  "bool \<Rightarrow> chat_reply option \<Rightarrow> clock \<Rightarrow> clock \<Rightarrow> chat_state \<Rightarrow> chat_state \<times> chat_request effect list" where
  "sendMessage ctx_ok reply t0 t1 s =
     (if js_trim (inputMessage s) = [] \<or> isLoading s then (s, [])
      else
        (let userMessage = \<lparr>msg_id = ''user-'' @ show_nat (now_ms t0), msg_type = User,
                             message = js_trim (inputMessage s), timestamp = now_iso t0,
                             context_type = None\<rparr>;
             s1 = s\<lparr>messages := messages s @ [userMessage], inputMessage := [], isLoading := True\<rparr>;
             (s2, fx2) = (if Object_keys_length (chat_context s) > 0
                          then updateChatContext ctx_ok (chat_context s) s1
                          else (s1, []));
             send = Request (SendChatMessage (message userMessage) (sessionId s))
         in case reply of
              Some r \<Rightarrow>
                (s2\<lparr>messages := messages s2 @
                        [\<lparr>msg_id = ''ai-'' @ show_nat (now_ms t1), msg_type = Ai,
                          message = response r, timestamp = reply_timestamp r,
                          context_type = reply_context_type r\<rparr>],
                     isLoading := False\<rparr>,
                 fx2 @ [send])
            | None \<Rightarrow>
                (s2\<lparr>messages := messages s2 @
                        [\<lparr>msg_id = ''error-'' @ show_nat (now_ms t1), msg_type = Ai,
                          message = error_text, timestamp = now_iso t1,
                          context_type = None\<rparr>],
                     isLoading := False\<rparr>,
                 fx2 @ [send, ConsoleError ''Error sending chat message:'',
                        ConsoleError ''Error sending message:''])))"


section \<open>Results review\<close>

text \<open>\<open>correct_answer\<close> is typed \<open>any\<close>: the values a JSON field can hold.\<close>

datatype js_value = JUndefined | JNull | JString string | JBool bool | JNumber rat

record QuestionResult =
  question_index :: nat
  qtype :: string
  user_answer :: string
  user_score :: "rat option"
  correct_answer :: js_value

record results_state =
  submissionId :: string
  selfScores :: "rat js_record"

datatype scores_request = UpdateScores string "rat js_record"

definition handleScoreChange :: "nat \<Rightarrow> rat \<Rightarrow> results_state \<Rightarrow> results_state" where
  "handleScoreChange questionIndex score s =
     s\<lparr>selfScores := AList.update questionIndex score (selfScores s)\<rparr>"

definition saveScores :: "results_state \<Rightarrow> results_state \<times> scores_request effect list" where
  "saveScores s =
     (if length (map fst (selfScores s)) = 0
      then (s, [Toast \<lparr>title = ''No scores to save'',
                        description = ''Please rate some answers first.'',
                        destructive = True\<rparr>])
      else (s, [Request (UpdateScores (submissionId s) (selfScores s))]))"

text \<open>\<open>a || b || 0\<close> on numbers that may be missing: \<open>undefined\<close> and \<open>0\<close> are
  falsy.\<close>

definition num_or :: "rat option \<Rightarrow> rat option \<Rightarrow> rat" where
  "num_or a b =
     (case a of
        Some x \<Rightarrow> if x \<noteq> 0 then x else (case b of Some y \<Rightarrow> y | None \<Rightarrow> 0)
      | None \<Rightarrow> (case b of Some y \<Rightarrow> y | None \<Rightarrow> 0))"

text \<open>\<open>q.user_answer === q.correct_answer\<close> with a string on the left: true only for
  the same string.\<close>

definition strict_eq :: "string \<Rightarrow> js_value \<Rightarrow> bool" where
  "strict_eq a v = (v = JString a)"

definition is_objective :: "QuestionResult \<Rightarrow> bool" where
  "is_objective q = (qtype q = ''mcq'' \<or> qtype q = ''true_false'')"

text \<open>The score the statistics use for a question that is not objective:
  \<open>q.user_score || selfScores[index] || 0\<close>.\<close>

definition effective_score :: "rat js_record \<Rightarrow> nat \<Rightarrow> QuestionResult \<Rightarrow> rat" where
  "effective_score ss index q = num_or (user_score q) (map_of ss index)"

record stats_acc =
  totalScore :: rat
  scoredQuestions :: nat
  correctAnswers :: nat

text \<open>The body of the \<open>forEach\<close>.\<close>

definition stats_step :: "rat js_record \<Rightarrow> stats_acc \<Rightarrow> QuestionResult \<times> nat \<Rightarrow> stats_acc" where
  "stats_step ss acc qi =
     (let q = fst qi; index = snd qi in
      if is_objective q
      then (let acc1 = (if strict_eq (user_answer q) (correct_answer q)
                        then acc\<lparr>correctAnswers := correctAnswers acc + 1,
                                 totalScore := totalScore acc + 100\<rparr>
                        else acc)
            in acc1\<lparr>scoredQuestions := scoredQuestions acc1 + 1\<rparr>)
      else (let score = effective_score ss index q in
            if score > 0
            then acc\<lparr>totalScore := totalScore acc + score,
                     scoredQuestions := scoredQuestions acc + 1\<rparr>
            else acc))"

definition stats_loop :: "rat js_record \<Rightarrow> QuestionResult list \<Rightarrow> stats_acc" where
  "stats_loop ss questions =
     foldl (stats_step ss) \<lparr>totalScore = 0, scoredQuestions = 0, correctAnswers = 0\<rparr>
       (zip questions [0 ..< length questions])"

record statistics_result =
  totalQuestions :: nat
  answered :: nat
  stat_correctAnswers :: nat
  averageScore :: rat
  stat_scoredQuestions :: nat

text \<open>\<open>statistics\<close>; \<open>None\<close> is \<open>null\<close>, returned when there is no submission data.
  The quotient is exact here, where JavaScript rounds it to a double.\<close>

definition statistics :: "QuestionResult list option \<Rightarrow> rat js_record \<Rightarrow> statistics_result option" where
  "statistics questions_with_answers ss =
     (case questions_with_answers of
        None \<Rightarrow> None
      | Some questions \<Rightarrow>
          (let acc = stats_loop ss questions in
           Some \<lparr>totalQuestions = length questions,
                 answered = length (filter (\<lambda>q. user_answer q \<noteq> [] \<and> js_trim (user_answer q) \<noteq> []) questions),
                 stat_correctAnswers = correctAnswers acc,
                 averageScore = (if scoredQuestions acc > 0
                                 then totalScore acc / of_nat (scoredQuestions acc) else 0),
                 stat_scoredQuestions = scoredQuestions acc\<rparr>))"

text \<open>The value the self-assessment slider shows:
  \<open>selfScores[index] || question.user_score || 0\<close>.\<close>

definition slider_value :: "rat js_record \<Rightarrow> nat \<Rightarrow> QuestionResult \<Rightarrow> rat" where
  "slider_value ss index q = num_or (map_of ss index) (user_score q)"


section \<open>Reachable form states\<close>

text \<open>\<open>onFilesSelected\<close> keeps the files whose type is \<open>application/pdf\<close> or whose
  lower-cased name ends in \<open>.pdf\<close>.\<close>

definition toLowerCase :: "string \<Rightarrow> string" where
  "toLowerCase s =
     map (\<lambda>c. let k = (of_char c :: nat) in if 65 \<le> k \<and> k \<le> 90 then char_of (k + 32) else c) s"




section \<open>Reference definitions and concrete inputs\<close>



definition form_with_url :: form_state where
  "form_with_url = initial_form\<lparr>urlsList := [''example.com'']\<rparr>"

text \<open>The rule of the specification for the test identifier: of \<open>test_id\<close>,
  \<open>quiz_id\<close> and \<open>id\<close>, in that order, the first one that is present. A field is
  present when the response holds it, whatever its value.\<close>

definition first_present_id :: "gen_data \<Rightarrow> string option" where
  "first_present_id r =
     (case filter (\<lambda>v. v \<noteq> None) [test_id r, quiz_id r, id_field r] of
        [] \<Rightarrow> None
      | v # _ \<Rightarrow> v)"

text \<open>The same rule over the fields that hold an identifier: present and not empty.\<close>

definition first_nonempty_id :: "gen_data \<Rightarrow> string option" where
  "first_nonempty_id r =
     (case filter truthy [test_id r, quiz_id r, id_field r] of
        [] \<Rightarrow> None
      | v # _ \<Rightarrow> v)"

text \<open>A response whose \<open>test_id\<close> is there and empty.\<close>

definition empty_test_id_response :: gen_data where
  "empty_test_id_response = \<lparr>test_id = Some [], quiz_id = Some ''q7'', id_field = None\<rparr>"

definition quiz_id_response :: gen_data where
  "quiz_id_response = \<lparr>test_id = None, quiz_id = Some ''q7'', id_field = Some ''i9''\<rparr>"

text \<open>
  Modelled from the URL standard, which the browser's \<open>URL\<close> constructor follows: the
  part of its parser that the texts used below need. Blanks and control characters go
  from both ends, and tabs and line breaks from anywhere. A text that does not begin with
  a scheme (a letter, then letters, digits, \<open>+\<close>, \<open>-\<close> or \<open>.\<close>, then a colon) has no
  base to resolve against: the constructor throws. For the special schemes \<open>http\<close>,
  \<open>https\<close>, \<open>ws\<close>, \<open>wss\<close> and \<open>ftp\<close> the slashes after the colon are skipped and the
  host runs up to the next \<open>/\<close>, \<open>\\<close>, \<open>?\<close> or \<open>#\<close>: an empty host throws, a host of
  dot-separated labels of letters, digits and hyphens is returned in lower case, and a
  host made of such characters and spaces throws. For any other scheme but \<open>file\<close>, a
  text with \<open>//\<close> after the colon has the host that follows, which may be empty, and a
  text without has no host; neither throws. What lies beyond (credentials, ports,
  numeric and bracketed hosts, percent signs, \<open>xn--\<close> labels, \<open>file\<close>) is \<open>Unmodelled\<close>.
\<close>

datatype url_outcome = Throws | Returns url | Unmodelled

definition is_ascii_alpha :: "char \<Rightarrow> bool" where
  "is_ascii_alpha c =
     (let k = (of_char c :: nat) in (65 \<le> k \<and> k \<le> 90) \<or> (97 \<le> k \<and> k \<le> 122))"

definition is_ascii_digit :: "char \<Rightarrow> bool" where
  "is_ascii_digit c = (let k = (of_char c :: nat) in 48 \<le> k \<and> k \<le> 57)"

definition is_scheme_char :: "char \<Rightarrow> bool" where
  "is_scheme_char c =
     (is_ascii_alpha c \<or> is_ascii_digit c \<or> c = CHR ''+'' \<or> c = CHR ''-'' \<or> c = CHR ''.'')"

definition is_host_char :: "char \<Rightarrow> bool" where
  "is_host_char c = (is_ascii_alpha c \<or> is_ascii_digit c \<or> c = CHR ''-'' \<or> c = CHR ''.'')"

definition is_c0_or_space :: "char \<Rightarrow> bool" where
  "is_c0_or_space c = ((of_char c :: nat) \<le> 32)"

definition is_tab_or_newline :: "char \<Rightarrow> bool" where
  "is_tab_or_newline c = (c = CHR 0x09 \<or> c = CHR 0x0A \<or> c = CHR 0x0D)"

text \<open>A host of the plain kind: labels that are not empty, none of them punycode, the
  last one beginning with a letter, so that it is no number.\<close>

definition plain_host :: "string \<Rightarrow> bool" where
  "plain_host a =
     (let labels = js_split (CHR ''.'') a in
      list_all is_host_char a
      \<and> list_all (\<lambda>l. l \<noteq> [] \<and> take 4 (toLowerCase l) \<noteq> ''xn--'') labels
      \<and> is_ascii_alpha (hd (last labels)))"

definition url_standard :: "string \<Rightarrow> url_outcome" where
  "url_standard input =
     (let stripped = rev (dropWhile is_c0_or_space (rev (dropWhile is_c0_or_space input)));
          s = filter (\<lambda>c. \<not> is_tab_or_newline c) stripped;
          scheme = takeWhile is_scheme_char s;
          rest = drop (length scheme) s
      in if scheme = [] then Throws
         else if \<not> is_ascii_alpha (hd scheme) then Throws
         else if rest = [] then Throws
         else if hd rest \<noteq> CHR '':'' then Throws
         else
           (let sch = toLowerCase scheme; after = tl rest in
            if sch \<in> set [''http'', ''https'', ''ws'', ''wss'', ''ftp'']
            then (let authority =
                        takeWhile (\<lambda>c. c \<notin> set [CHR ''/'', CHR 0x5C, CHR ''?'', CHR ''#''])
                          (dropWhile (\<lambda>c. c = CHR ''/'' \<or> c = CHR 0x5C) after)
                  in if authority = [] then Throws
                     else if plain_host authority
                     then Returns \<lparr>protocol = sch @ '':'', host = toLowerCase authority\<rparr>
                     else if list_all (\<lambda>c. is_host_char c \<or> c = CHR '' '') authority
                             \<and> CHR '' '' \<in> set authority
                     then Throws
                     else Unmodelled)
            else if sch = ''file'' then Unmodelled
            else if take 2 after = ''//''
            then (let authority =
                        takeWhile (\<lambda>c. c \<notin> set [CHR ''/'', CHR ''?'', CHR ''#'']) (drop 2 after)
                  in if list_all is_host_char authority
                     then Returns \<lparr>protocol = sch @ '':'', host = authority\<rparr>
                     else Unmodelled)
            else Returns \<lparr>protocol = sch @ '':'', host = []\<rparr>))"





text \<open>A multi-select question with the option keys \<open>a\<close> and \<open>a,b\<close>: the user checks
  \<open>a\<close>, checks \<open>a,b\<close>, then unchecks \<open>a\<close>.\<close>

definition comma_key_session :: quiz_state where
  "comma_key_session =
     handleMultiSelectChange ''a'' False
       (handleMultiSelectChange ''a,b'' True
         (handleMultiSelectChange ''a'' True initial_quiz))"

text \<open>A multi-select question with the option keys \<open>A\<close>, \<open>B\<close> and \<open>C\<close>, after \<open>A\<close>
  and \<open>C\<close> were checked.\<close>

definition two_checked :: quiz_state where
  "two_checked = handleMultiSelectChange ''C'' True (handleMultiSelectChange ''A'' True initial_quiz)"

text \<open>The messages \<open>sendMessage\<close> builds.\<close>

definition userMessage_of :: "clock \<Rightarrow> chat_state \<Rightarrow> ChatMessage" where
  "userMessage_of t0 s =
     \<lparr>msg_id = ''user-'' @ show_nat (now_ms t0), msg_type = User,
      message = js_trim (inputMessage s), timestamp = now_iso t0, context_type = None\<rparr>"

definition aiMessage_of :: "clock \<Rightarrow> chat_reply \<Rightarrow> ChatMessage" where
  "aiMessage_of t1 r =
     \<lparr>msg_id = ''ai-'' @ show_nat (now_ms t1), msg_type = Ai, message = response r,
      timestamp = reply_timestamp r, context_type = reply_context_type r\<rparr>"

definition errorMessage_of :: "clock \<Rightarrow> ChatMessage" where
  "errorMessage_of t1 =
     \<lparr>msg_id = ''error-'' @ show_nat (now_ms t1), msg_type = Ai, message = error_text,
      timestamp = now_iso t1, context_type = None\<rparr>"

text \<open>The rule of the results page, in words. A score counts as given when it is there
  and is not \<open>0\<close>. The effective score of a question is the server's score when given,
  else the buffered self-score when given, else \<open>0\<close>. A question of type \<open>mcq\<close> or
  \<open>true_false\<close> is always scored, with \<open>100\<close> when the user's answer is the correct
  answer and \<open>0\<close> otherwise; a question of another type is scored with its effective
  score when that is above \<open>0\<close>, and not at all otherwise.\<close>

definition is_truthy_num :: "rat option \<Rightarrow> bool" where
  "is_truthy_num v = (case v of None \<Rightarrow> False | Some x \<Rightarrow> x \<noteq> 0)"

definition given_score :: "rat option \<Rightarrow> rat option \<Rightarrow> rat" where
  "given_score first second =
     (if is_truthy_num first then the first
      else if is_truthy_num second then the second else 0)"

definition counted :: "rat js_record \<Rightarrow> QuestionResult \<times> nat \<Rightarrow> bool" where
  "counted ss qi =
     (case qi of (q, i) \<Rightarrow>
        qtype q = ''mcq'' \<or> qtype q = ''true_false''
        \<or> 0 < given_score (user_score q) (map_of ss i))"

definition contribution :: "rat js_record \<Rightarrow> QuestionResult \<times> nat \<Rightarrow> rat" where
  "contribution ss qi =
     (case qi of (q, i) \<Rightarrow>
        if qtype q = ''mcq'' \<or> qtype q = ''true_false''
        then (if correct_answer q = JString (user_answer q) then 100 else 0)
        else max 0 (given_score (user_score q) (map_of ss i)))"

definition answered_right :: "QuestionResult \<times> nat \<Rightarrow> bool" where
  "answered_right qi =
     (case qi of (q, i) \<Rightarrow>
        (qtype q = ''mcq'' \<or> qtype q = ''true_false'')
        \<and> correct_answer q = JString (user_answer q))"

text \<open>Four answered questions: a multiple-choice question answered right, a true/false
  question answered wrong, a short answer the server has not scored, and a long answer the
  server has not scored either. In the buffer the short answer is rated \<open>0\<close> and the long
  answer \<open>80\<close>.\<close>

definition reviewed_questions :: "QuestionResult list" where
  "reviewed_questions =
     [\<lparr>question_index = 0, qtype = ''mcq'', user_answer = ''A'', user_score = None,
       correct_answer = JString ''A''\<rparr>,
      \<lparr>question_index = 1, qtype = ''true_false'', user_answer = ''true'', user_score = None,
       correct_answer = JString ''false''\<rparr>,
      \<lparr>question_index = 2, qtype = ''short_answer'', user_answer = ''a cell'', user_score = None,
       correct_answer = JUndefined\<rparr>,
      \<lparr>question_index = 3, qtype = ''long_answer'', user_answer = ''an essay'', user_score = None,
       correct_answer = JUndefined\<rparr>]"

definition buffered_scores :: "rat js_record" where
  "buffered_scores = [(2, 0), (3, 80)]"

text \<open>A test of three questions and one minute. In the first run the user answers
  question 1 with \<open>A\<close> in the last second, after 59 seconds have passed. In the second
  run the user answers at once and then lets the time run out; \<open>after_time\<close> is what
  happens after that.\<close>

definition one_minute_quiz :: quiz_state where
  "one_minute_quiz = loadTest 1 3 initial_quiz"

definition last_second_answer :: "quiz_event list" where
  "last_second_answer = replicate 59 Tick @ [AnswerChange ''A'']"

definition early_answer :: "quiz_event list" where
  "early_answer = AnswerChange ''A'' # replicate 58 Tick"

definition after_time :: "quiz_event list" where
  "after_time = [AnswerChange ''B'', Tick, Tick]"

section \<open>The question-count input\<close>

lemma parseInt_999: "parseInt ''999'' = Some 999"
  by (simp add: parseInt_def is_js_space_def is_digit_of_def digit_val_def digits_value_def)

lemma parseInt_0: "parseInt ''0'' = Some 0"
  by (simp add: parseInt_def is_js_space_def is_digit_of_def digit_val_def digits_value_def)

lemma parseInt_empty: "parseInt [] = None"
  by (simp add: parseInt_def)

text \<open>
  C4. Whatever is typed into the question-count input, the stored count lies in
  \<open>[1, 50]\<close>: it is the parsed number clamped to that interval, with \<open>1\<close> where nothing
  parses. Typing \<open>999\<close> stores \<open>50\<close>, typing \<open>0\<close> or nothing stores \<open>1\<close>, and the form
  starts at \<open>15\<close>.
\<close>

theorem questionCount_clamped:
  "1 \<le> questionCount_onChange v \<and> questionCount_onChange v \<le> 50
   \<and> questionCount_onChange v = min 50 (max 1 (case parseInt v of None \<Rightarrow> 1 | Some n \<Rightarrow> n))
   \<and> questionCount_onChange ''999'' = 50
   \<and> questionCount_onChange ''0'' = 1
   \<and> questionCount_onChange [] = 1
   \<and> questionCount initial_form = 15"
proof -
  have clamp: "questionCount_onChange v = min 50 (max 1 (case parseInt v of None \<Rightarrow> 1 | Some n \<Rightarrow> n))"
    by (simp add: questionCount_onChange_def maxQuestions_def or_one_def split: option.split)
  have big: "questionCount_onChange ''999'' = 50"
    by (simp add: questionCount_onChange_def maxQuestions_def or_one_def parseInt_999)
  have zero: "questionCount_onChange ''0'' = 1"
    by (simp add: questionCount_onChange_def maxQuestions_def or_one_def parseInt_0)
  have blank: "questionCount_onChange [] = 1"
    by (simp add: questionCount_onChange_def maxQuestions_def or_one_def parseInt_empty)
  have start: "questionCount initial_form = 15"
    by (simp add: initial_form_def)
  from clamp have "1 \<le> questionCount_onChange v" "questionCount_onChange v \<le> 50"
    by simp_all
  with clamp big zero blank start show ?thesis
    by blast
qed

section \<open>Clearing the chat\<close>



section \<open>Saving self-assessment scores\<close>

text \<open>
  C9. The save action sends the whole buffered score map in one request, and nothing
  else; with an empty buffer it sends no request and shows one error notification.
\<close>

theorem saveScores_sends_whole_buffer:
  "requests_of (snd (saveScores s)) =
     (if selfScores s = [] then [] else [UpdateScores (submissionId s) (selfScores s)])
   \<and> map destructive (toasts_of (snd (saveScores s))) = (if selfScores s = [] then [True] else [])
   \<and> fst (saveScores s) = s"
  by (simp add: saveScores_def)


section \<open>Generating a quiz\<close>

lemma hasContent_iff: "hasContent s \<longleftrightarrow> \<not> (length (urlsList s) = 0 \<and> length (files s) = 0)"
  by (auto simp: hasContent_def)

lemma hasQuestionTypes_iff: "hasQuestionTypes s \<longleftrightarrow> length (selectedTypes (questionTypes s)) \<noteq> 0"
  by (auto simp: hasQuestionTypes_def selectedTypes_def Let_def)

lemma handleGenerateQuiz_unblocked:
  assumes "hasContent s" and "hasQuestionTypes s"
  shows "handleGenerateQuiz server now s =
     (case server (build_request now s) of
        Rejected msg \<Rightarrow>
          (s\<lparr>loading := False\<rparr>,
           [Request (build_request now s), ConsoleError ''Error in generateQuiz:'',
            ConsoleError ''Generate quiz error:'', Toast (gen_failed_toast msg)])
      | Resolved d \<Rightarrow>
          (if truthy (extract_testId d)
           then (s\<lparr>urlsList := [], files := [], urlsText := [], loading := False\<rparr>,
                 [Request (build_request now s),
                  Toast \<lparr>title = ''Quiz Generated!'',
                         description = ''Starting your quiz now...'',
                         destructive = False\<rparr>,
                  Navigate (''/take-quiz/'' @ the (extract_testId d))])
           else (s\<lparr>loading := False\<rparr>,
                 [Request (build_request now s), ConsoleError ''Generate quiz error:'',
                  Toast (gen_failed_toast (Some ''No test ID received from server''))])))"
proof -
  from assms have "\<not> (length (urlsList s) = 0 \<and> length (files s) = 0)"
    and "length (selectedTypes (questionTypes s)) \<noteq> 0"
    by (simp_all add: hasContent_iff hasQuestionTypes_iff)
  then show ?thesis
    unfolding handleGenerateQuiz_def Let_def by (simp only: if_False)
qed

text \<open>
  C5. With no source (no URL and no file) or no enabled question type,
  \<open>handleGenerateQuiz\<close> sends no request, shows one validation notification and leaves
  the collected sources as they are; with a source and an enabled type it sends the
  generation request, once. The Generate button is enabled exactly when there is a
  source, an enabled type and no generation under way.
\<close>

theorem generate_blocked_without_source_or_type:
  "requests_of (snd (handleGenerateQuiz server now s)) =
     (if hasContent s \<and> hasQuestionTypes s then [build_request now s] else [])
   \<and> (if hasContent s \<and> hasQuestionTypes s then True
       else toasts_of (snd (handleGenerateQuiz server now s)) =
              [\<lparr>title = (if hasContent s then ''Select question types'' else ''Add content''),
                description = (if hasContent s then ''Please select at least one question type.''
                               else ''Please paste links or upload at least one PDF.''),
                destructive = True\<rparr>]
            \<and> navigations_of (snd (handleGenerateQuiz server now s)) = []
            \<and> urlsList (fst (handleGenerateQuiz server now s)) = urlsList s
            \<and> files (fst (handleGenerateQuiz server now s)) = files s)
   \<and> canGenerate s = (hasContent s \<and> hasQuestionTypes s \<and> \<not> loading s)"
proof -
  have c: "canGenerate s = (hasContent s \<and> hasQuestionTypes s \<and> \<not> loading s)"
    by (simp add: canGenerate_def)
  show ?thesis
  proof (cases "hasContent s \<and> hasQuestionTypes s")
    case True
    then have "requests_of (snd (handleGenerateQuiz server now s)) = [build_request now s]"
      by (cases "server (build_request now s)") (simp_all add: handleGenerateQuiz_unblocked)
    with True c show ?thesis by simp
  next
    case False
    then show ?thesis
      using c by (auto simp: handleGenerateQuiz_def hasContent_iff hasQuestionTypes_iff)
  qed
qed

text \<open>
  C6, as the claim states it, fails: a response whose \<open>test_id\<close> is present and empty
  and whose \<open>quiz_id\<close> is \<open>q7\<close> has \<open>test_id\<close> as its first present field, yet the
  form navigates to the quiz \<open>q7\<close>.
\<close>

theorem generate_skips_empty_test_id:
  "first_present_id empty_test_id_response = Some []
   \<and> navigations_of (snd (handleGenerateQuiz (\<lambda>r. Resolved (Some empty_test_id_response))
        ''now'' form_with_url)) = [''/take-quiz/q7'']"
  by (simp add: first_present_id_def empty_test_id_response_def handleGenerateQuiz_def
      form_with_url_def initial_form_def selectedTypes_def extract_testId_def js_or_def truthy_def)

lemma extract_testId_first_nonempty: "extract_testId (Some r) = first_nonempty_id r \<or>
    (\<not> truthy (extract_testId (Some r)) \<and> first_nonempty_id r = None)"
  by (auto simp: extract_testId_def first_nonempty_id_def js_or_def)

lemma first_nonempty_id_truthy: "first_nonempty_id r = Some t \<Longrightarrow> truthy (first_nonempty_id r)"
  by (auto simp: first_nonempty_id_def split: if_splits)

lemma first_nonempty_id_None: "first_nonempty_id r = None \<Longrightarrow> \<not> truthy (extract_testId (Some r))"
  by (auto simp: first_nonempty_id_def extract_testId_def js_or_def truthy_def split: if_splits)

text \<open>
  C6, amended. Once a request has gone out: if the response holds a non-empty
  \<open>test_id\<close>, \<open>quiz_id\<close> or \<open>id\<close>, the form navigates to the quiz-taking view of the
  first of them in that order, a field that is missing or empty being skipped, and the
  URL list, the file list and the URL text are cleared; if it holds none, or has no
  body, or the request is rejected, there is no navigation, one error notification is
  shown (for a missing identifier, the generic one) and the three are left as they were.
\<close>

theorem generate_navigates_to_first_nonempty_id:
  assumes "hasContent s" and "hasQuestionTypes s"
  shows "case server (build_request now s) of
           Resolved (Some r) \<Rightarrow>
             (case first_nonempty_id r of
                Some t \<Rightarrow>
                  navigations_of (snd (handleGenerateQuiz server now s)) = [''/take-quiz/'' @ t]
                  \<and> urlsList (fst (handleGenerateQuiz server now s)) = []
                  \<and> files (fst (handleGenerateQuiz server now s)) = []
                  \<and> urlsText (fst (handleGenerateQuiz server now s)) = []
              | None \<Rightarrow>
                  navigations_of (snd (handleGenerateQuiz server now s)) = []
                  \<and> toasts_of (snd (handleGenerateQuiz server now s)) =
                      [gen_failed_toast (Some ''No test ID received from server'')]
                  \<and> urlsList (fst (handleGenerateQuiz server now s)) = urlsList s
                  \<and> files (fst (handleGenerateQuiz server now s)) = files s
                  \<and> urlsText (fst (handleGenerateQuiz server now s)) = urlsText s)
         | Resolved None \<Rightarrow>
             navigations_of (snd (handleGenerateQuiz server now s)) = []
             \<and> toasts_of (snd (handleGenerateQuiz server now s)) =
                 [gen_failed_toast (Some ''No test ID received from server'')]
             \<and> urlsList (fst (handleGenerateQuiz server now s)) = urlsList s
             \<and> files (fst (handleGenerateQuiz server now s)) = files s
             \<and> urlsText (fst (handleGenerateQuiz server now s)) = urlsText s
         | Rejected msg \<Rightarrow>
             navigations_of (snd (handleGenerateQuiz server now s)) = []
             \<and> toasts_of (snd (handleGenerateQuiz server now s)) = [gen_failed_toast msg]
             \<and> urlsList (fst (handleGenerateQuiz server now s)) = urlsList s
             \<and> files (fst (handleGenerateQuiz server now s)) = files s
             \<and> urlsText (fst (handleGenerateQuiz server now s)) = urlsText s"
proof (cases "server (build_request now s)")
  case (Rejected msg)
  then show ?thesis
    by (simp add: handleGenerateQuiz_unblocked [OF assms])
next
  case (Resolved d)
  show ?thesis
  proof (cases d)
    case None
    with Resolved show ?thesis
      by (simp add: handleGenerateQuiz_unblocked [OF assms] extract_testId_def truthy_def)
  next
    case (Some r)
    show ?thesis
    proof (cases "first_nonempty_id r")
      case None
      from first_nonempty_id_None [OF None] Resolved Some None show ?thesis
        by (simp add: handleGenerateQuiz_unblocked [OF assms])
    next
      case (Some t)
      from first_nonempty_id_truthy [OF Some] extract_testId_first_nonempty [of r]
      have "extract_testId (Some r) = Some t" "truthy (extract_testId (Some r))"
        using Some by auto
      with Resolved \<open>d = Some r\<close> Some show ?thesis
        by (simp add: handleGenerateQuiz_unblocked [OF assms])
    qed
  qed
qed

theorem generate_navigates_to_first_nonempty_id_witness:
  "hasContent form_with_url \<and> hasQuestionTypes form_with_url
   \<and> first_nonempty_id quiz_id_response = Some ''q7''
   \<and> navigations_of (snd (handleGenerateQuiz (\<lambda>r. Resolved (Some quiz_id_response)) ''now''
        form_with_url)) = [''/take-quiz/q7'']
   \<and> urlsList (fst (handleGenerateQuiz (\<lambda>r. Resolved (Some quiz_id_response)) ''now''
        form_with_url)) = []"
proof -
  have h1: "hasContent form_with_url"
    by (simp add: hasContent_def form_with_url_def)
  have h2: "hasQuestionTypes form_with_url"
    by (simp add: hasQuestionTypes_def form_with_url_def initial_form_def)
  have f: "first_nonempty_id quiz_id_response = Some ''q7''"
    by (simp add: first_nonempty_id_def quiz_id_response_def truthy_def)
  from generate_navigates_to_first_nonempty_id
         [OF h1 h2, of "\<lambda>r. Resolved (Some quiz_id_response)" "''now''"] f h1 h2
  show ?thesis by simp
qed


section \<open>URL intake\<close>




















lemma pasted_text_outcomes:
  "url_standard ''http://example.com'' = Returns \<lparr>protocol = ''http:'', host = ''example.com''\<rparr>"
  "url_standard ''http://not a url'' = Throws"
  "url_standard ''https://Example.org/a'' = Returns \<lparr>protocol = ''https:'', host = ''example.org''\<rparr>"
  "url_standard ''example.com'' = Throws"
  by code_simp+


section \<open>Answering a question\<close>

lemma js_split_nonempty: "js_split d s \<noteq> []"
  by (induction s) (auto split: list.split)

lemma js_split_single: "d \<notin> set x \<Longrightarrow> js_split d x = [x]"
  by (induction x) auto

lemma js_split_append: "d \<notin> set x \<Longrightarrow> js_split d (x @ d # rest) = x # js_split d rest"
  by (induction x) auto

lemma js_split_no_separator: "x \<in> set (js_split d s) \<Longrightarrow> d \<notin> set x"
proof (induction s arbitrary: x)
  case Nil
  then show ?case by simp
next
  case (Cons c cs)
  show ?case
  proof (cases "c = d")
    case True
    with Cons show ?thesis by auto
  next
    case False
    obtain h t where ht: "js_split d cs = h # t"
      using js_split_nonempty [of d cs] by (cases "js_split d cs") auto
    with False Cons.prems have "x = c # h \<or> x \<in> set t" by auto
    with False ht Cons.IH [of h] Cons.IH [of x] show ?thesis by auto
  qed
qed

lemma js_split_join:
  "xs \<noteq> [] \<Longrightarrow> list_all (\<lambda>x. d \<notin> set x) xs \<Longrightarrow> js_split d (js_join d xs) = xs"
proof (induction d xs rule: js_join.induct)
  case (1 d)
  then show ?case by simp
next
  case (2 d x)
  then show ?case by (simp add: js_split_single)
next
  case (3 d x y ys)
  then show ?case by (simp add: js_split_append)
qed

lemma js_join_nonempty: "xs \<noteq> [] \<Longrightarrow> [] \<notin> set xs \<Longrightarrow> js_join d xs \<noteq> []"
  by (induction d xs rule: js_join.induct) auto

lemma rerender_answers:
  "timeRemaining new = timeRemaining old \<Longrightarrow> isSubmitted new = isSubmitted old \<Longrightarrow>
     rerender old new = new"
  by (simp add: rerender_def)

lemma handleAnswerChange_answers:
  "answers (handleAnswerChange v s) = AList.update (currentQuestion s) v (answers s)"
  "currentQuestion (handleAnswerChange v s) = currentQuestion s"
  by (simp_all add: handleAnswerChange_def rerender_answers)

lemma handleMultiSelectChange_answers:
  "answers (handleMultiSelectChange option checked s) =
     AList.update (currentQuestion s)
       (js_join (CHR '','')
          (if checked then currentSelections s @ [option]
           else filter (\<lambda>sel. sel \<noteq> option) (currentSelections s)))
       (answers s)"
  "currentQuestion (handleMultiSelectChange option checked s) = currentQuestion s"
  by (simp_all add: handleMultiSelectChange_def rerender_answers Let_def)

lemma currentSelections_comma_free: "list_all (\<lambda>x. CHR '','' \<notin> set x) (currentSelections s)"
  by (auto simp: currentSelections_def Let_def list_all_iff dest: js_split_no_separator)

text \<open>What the checkboxes read back from a stored answer that was joined from \<open>xs\<close>.\<close>

lemma currentSelections_of_join:
  assumes "answers s' = AList.update (currentQuestion s') (js_join (CHR '','') xs) old"
    and "list_all (\<lambda>x. CHR '','' \<notin> set x) xs" and "[] \<notin> set xs"
  shows "currentSelections s' = xs"
proof (cases "xs = []")
  case True
  with assms(1) show ?thesis
    by (simp add: currentSelections_def update_conv')
next
  case False
  from False assms(3) have "js_join (CHR '','') xs \<noteq> []" by (rule js_join_nonempty)
  with assms(1) js_split_join [OF False assms(2)] show ?thesis
    by (simp add: currentSelections_def update_conv')
qed

text \<open>
  C7, as the claim states it, fails for an option key with a comma in it. With the
  option keys \<open>a\<close> and \<open>a,b\<close>, checking \<open>a\<close>, checking \<open>a,b\<close> and unchecking \<open>a\<close>
  leaves \<open>a,b\<close> as the one selected key, whose comma-joined list is \<open>a,b\<close>; the stored
  answer is \<open>b\<close>, and the checkbox of \<open>a,b\<close> shows unchecked.
\<close>

theorem multi_select_comma_key_breaks:
  "map_of (answers comma_key_session) (currentQuestion comma_key_session) = Some ''b''
   \<and> js_join (CHR '','') [''a,b''] = ''a,b''
   \<and> \<not> multi_checked comma_key_session ''a,b''"
  by (simp add: comma_key_session_def handleMultiSelectChange_answers currentSelections_def
      initial_quiz_def multi_checked_def)

text \<open>
  C7, amended. \<open>handleAnswerChange\<close> stores the value as the answer of the current
  question, replacing what was there, and touches no other answer. For a multi-select
  question whose option keys are not empty and contain no comma, checking an option
  appends its key to the selected keys and unchecking removes it, the stored answer
  being the comma-joined list of the selected keys; no other answer is touched.
\<close>

theorem answer_stored_for_current_question:
  assumes "CHR '','' \<notin> set option" and "option \<noteq> []" and "[] \<notin> set (currentSelections s)"
  shows "map_of (answers (handleAnswerChange v s)) = (map_of (answers s))(currentQuestion s \<mapsto> v)
   \<and> currentSelections (handleMultiSelectChange option True s) = currentSelections s @ [option]
   \<and> map_of (answers (handleMultiSelectChange option True s)) =
       (map_of (answers s))(currentQuestion s \<mapsto> js_join (CHR '','') (currentSelections s @ [option]))
   \<and> multi_checked (handleMultiSelectChange option True s) option
   \<and> currentSelections (handleMultiSelectChange option False s) =
       filter (\<lambda>sel. sel \<noteq> option) (currentSelections s)
   \<and> map_of (answers (handleMultiSelectChange option False s)) =
       (map_of (answers s))(currentQuestion s \<mapsto>
          js_join (CHR '','') (filter (\<lambda>sel. sel \<noteq> option) (currentSelections s)))
   \<and> \<not> multi_checked (handleMultiSelectChange option False s) option"
proof -
  let ?on = "handleMultiSelectChange option True s"
  let ?off = "handleMultiSelectChange option False s"
  have single: "map_of (answers (handleAnswerChange v s)) = (map_of (answers s))(currentQuestion s \<mapsto> v)"
    by (simp add: handleAnswerChange_answers update_conv')
  have free: "list_all (\<lambda>x. CHR '','' \<notin> set x) (currentSelections s)"
    by (rule currentSelections_comma_free)
  have on_sel: "currentSelections ?on = currentSelections s @ [option]"
  proof (rule currentSelections_of_join)
    show "answers ?on = AList.update (currentQuestion ?on)
        (js_join (CHR '','') (currentSelections s @ [option])) (answers s)"
      by (simp add: handleMultiSelectChange_answers)
    show "list_all (\<lambda>x. CHR '','' \<notin> set x) (currentSelections s @ [option])"
      using free assms(1) by simp
    show "[] \<notin> set (currentSelections s @ [option])"
      using assms(2,3) by auto
  qed
  have on_stored: "map_of (answers ?on) =
      (map_of (answers s))(currentQuestion s \<mapsto> js_join (CHR '','') (currentSelections s @ [option]))"
    by (simp add: handleMultiSelectChange_answers update_conv')
  have off_sel: "currentSelections ?off = filter (\<lambda>sel. sel \<noteq> option) (currentSelections s)"
  proof (rule currentSelections_of_join)
    show "answers ?off = AList.update (currentQuestion ?off)
        (js_join (CHR '','') (filter (\<lambda>sel. sel \<noteq> option) (currentSelections s))) (answers s)"
      by (simp add: handleMultiSelectChange_answers)
    show "list_all (\<lambda>x. CHR '','' \<notin> set x) (filter (\<lambda>sel. sel \<noteq> option) (currentSelections s))"
      using free by (simp add: list_all_iff)
    show "[] \<notin> set (filter (\<lambda>sel. sel \<noteq> option) (currentSelections s))"
      using assms(3) by simp
  qed
  have off_stored: "map_of (answers ?off) =
      (map_of (answers s))(currentQuestion s \<mapsto>
         js_join (CHR '','') (filter (\<lambda>sel. sel \<noteq> option) (currentSelections s)))"
    by (simp add: handleMultiSelectChange_answers update_conv')
  from on_sel have on_shown: "multi_checked ?on option"
    by (simp add: multi_checked_def)
  from off_sel have off_shown: "\<not> multi_checked ?off option"
    by (simp add: multi_checked_def)
  from single on_sel on_stored on_shown off_sel off_stored off_shown show ?thesis
    by blast
qed

lemma two_checked_selections: "currentSelections two_checked = [''A'', ''C'']"
  by (simp add: two_checked_def handleMultiSelectChange_answers currentSelections_def
      initial_quiz_def)

theorem answer_stored_for_current_question_witness:
  "CHR '','' \<notin> set ''B'' \<and> ''B'' \<noteq> [] \<and> [] \<notin> set (currentSelections two_checked)
   \<and> currentSelections (handleMultiSelectChange ''B'' True two_checked) = [''A'', ''C'', ''B'']
   \<and> map_of (answers (handleMultiSelectChange ''B'' True two_checked)) 0 = Some ''A,C,B''
   \<and> currentSelections (handleMultiSelectChange ''A'' False two_checked) = [''C'']
   \<and> map_of (answers (handleMultiSelectChange ''A'' False two_checked)) 0 = Some ''C''
   \<and> map_of (answers (handleAnswerChange ''true'' two_checked)) 0 = Some ''true''"
proof -
  have h1: "CHR '','' \<notin> set ''B''" and h1': "CHR '','' \<notin> set ''A''" by simp_all
  have h2: "''B'' \<noteq> []" and h2': "''A'' \<noteq> []" by simp_all
  have h3: "[] \<notin> set (currentSelections two_checked)"
    by (simp add: two_checked_selections)
  have q: "currentQuestion two_checked = 0"
    by (simp add: two_checked_def handleMultiSelectChange_answers initial_quiz_def)
  from answer_stored_for_current_question [OF h1 h2 h3, of "''true''"]
       answer_stored_for_current_question [OF h1' h2' h3, of "''true''"]
       h3 q
  show ?thesis by (simp add: two_checked_selections)
qed


section \<open>Sending a chat message\<close>

lemma Object_keys_length_pos: "Object_keys_length c > 0"
  by (simp add: Object_keys_length_def split: option.split)

lemma updateChatContext_messages:
  "messages (fst (updateChatContext ok c s)) = messages s"
  "isLoading (fst (updateChatContext ok c s)) = isLoading s"
  "inputMessage (fst (updateChatContext ok c s)) = inputMessage s"
  "requests_of (snd (updateChatContext ok c s)) = [UpdateContext c (sessionId s)]"
  "toasts_of (snd (updateChatContext ok c s)) = []"
  by (simp_all add: updateChatContext_def)

text \<open>
  C8. On blank input, or while a send is in flight, \<open>sendMessage\<close> does nothing. Else
  it pushes the context, which always has a key, and then sends the trimmed message,
  once, whether the context push succeeded or not; a failed push is logged to the console
  and nothing is shown to the user about it. The user's message is appended to the history, followed by the assistant's reply
  when the send succeeded and by one synthetic assistant error message when it failed;
  there is no second send.
\<close>

theorem sendMessage_never_blocked_by_context:
  "(if js_trim (inputMessage s) = [] \<or> isLoading s
    then sendMessage ctx_ok reply t0 t1 s = (s, [])
    else requests_of (snd (sendMessage ctx_ok reply t0 t1 s)) =
           (if Object_keys_length (chat_context s) > 0
            then [UpdateContext (chat_context s) (sessionId s)] else []) @
           [SendChatMessage (js_trim (inputMessage s)) (sessionId s)]
         \<and> toasts_of (snd (sendMessage ctx_ok reply t0 t1 s)) = []
         \<and> (if ctx_ok then True
             else ConsoleError ''Error updating chat context:''
                    \<in> set (snd (sendMessage ctx_ok reply t0 t1 s)))
         \<and> messages (fst (sendMessage ctx_ok reply t0 t1 s)) =
             messages s @ [userMessage_of t0 s,
                           (case reply of None \<Rightarrow> errorMessage_of t1 | Some r \<Rightarrow> aiMessage_of t1 r)]
         \<and> isLoading (fst (sendMessage ctx_ok reply t0 t1 s)) = False)
   \<and> Object_keys_length (chat_context s) > 0
   \<and> message (errorMessage_of t1) = error_text \<and> msg_type (errorMessage_of t1) = Ai"
proof (cases "js_trim (inputMessage s) = [] \<or> isLoading s")
  case True
  then show ?thesis
    by (auto simp: sendMessage_def Object_keys_length_pos errorMessage_of_def)
next
  case False
  then have go: "js_trim (inputMessage s) \<noteq> []" "\<not> isLoading s" by simp_all
  show ?thesis
  proof (cases reply)
    case None
    with go show ?thesis
      by (simp add: sendMessage_def Let_def Object_keys_length_pos updateChatContext_def
          userMessage_of_def errorMessage_of_def)
  next
    case (Some r)
    with go show ?thesis
      by (simp add: sendMessage_def Let_def Object_keys_length_pos updateChatContext_def
          userMessage_of_def errorMessage_of_def aiMessage_of_def)
  qed
qed

section \<open>Statistics of the results page\<close>

lemma effective_score_given:
  "effective_score ss i q = given_score (user_score q) (map_of ss i)"
  by (auto simp: effective_score_def num_or_def given_score_def is_truthy_num_def
      split: option.split)

lemma stats_step_counts:
  "scoredQuestions (stats_step ss acc qi) = scoredQuestions acc + (if counted ss qi then 1 else 0)"
  "totalScore (stats_step ss acc qi) = totalScore acc + contribution ss qi"
  "correctAnswers (stats_step ss acc qi) = correctAnswers acc + (if answered_right qi then 1 else 0)"
proof -
  obtain q i where qi: "qi = (q, i)" by (cases qi)
  show "scoredQuestions (stats_step ss acc qi) =
      scoredQuestions acc + (if counted ss qi then 1 else 0)"
    by (simp add: qi stats_step_def counted_def Let_def is_objective_def effective_score_given)
  show "totalScore (stats_step ss acc qi) = totalScore acc + contribution ss qi"
    by (simp add: qi stats_step_def contribution_def Let_def is_objective_def strict_eq_def
        effective_score_given)
  show "correctAnswers (stats_step ss acc qi) =
      correctAnswers acc + (if answered_right qi then 1 else 0)"
    by (simp add: qi stats_step_def answered_right_def Let_def is_objective_def strict_eq_def)
qed

lemma stats_foldl_counts:
  "scoredQuestions (foldl (stats_step ss) acc zs) = scoredQuestions acc + length (filter (counted ss) zs)
   \<and> totalScore (foldl (stats_step ss) acc zs) = totalScore acc + sum_list (map (contribution ss) zs)
   \<and> correctAnswers (foldl (stats_step ss) acc zs) = correctAnswers acc + length (filter answered_right zs)"
proof (induction zs arbitrary: acc)
  case Nil
  then show ?case by simp
next
  case (Cons z zs)
  show ?case
    by (simp add: Cons.IH [of "stats_step ss acc z"] stats_step_counts)
qed

lemma num_or_zero_is_missing: "num_or a (Some 0) = num_or a None"
  by (simp add: num_or_def split: option.split)

lemma effective_score_zero_buffered:
  "effective_score (AList.update i 0 ss) j q = effective_score (AList.delete i ss) j q"
  by (simp add: effective_score_def update_conv' delete_conv' num_or_zero_is_missing)

lemma stats_step_zero_buffered:
  "stats_step (AList.update i 0 ss) = stats_step (AList.delete i ss)"
  by (intro ext) (simp add: stats_step_def effective_score_zero_buffered Let_def)

text \<open>
  C10. In the statistics computed on the results page, the scored questions are the
  questions of type \<open>mcq\<close> or \<open>true_false\<close>, every one of them, and the questions of
  another type whose effective score (the server's score, else the buffered self-score)
  is above \<open>0\<close>; the total is \<open>100\<close> for each \<open>mcq\<close> or \<open>true_false\<close> question whose
  user answer is the correct answer, \<open>0\<close> for each other one of them, and the effective
  score for each other scored question; the average is the total over the number of
  scored questions. A buffered self-score of \<open>0\<close> gives the statistics of no buffered
  score at all, so it never enters the average. The slider shows the buffered score, else
  the server's score, else \<open>0\<close>. For the four reviewed questions, two of them objective
  and one right, one rated \<open>0\<close> and one rated \<open>80\<close>, three are scored and the average is
  \<open>60\<close>.
\<close>

theorem statistics_leave_out_zero_scores:
  "scoredQuestions (stats_loop ss qs) = length (filter (counted ss) (zip qs [0 ..< length qs]))
   \<and> totalScore (stats_loop ss qs) = sum_list (map (contribution ss) (zip qs [0 ..< length qs]))
   \<and> correctAnswers (stats_loop ss qs) = length (filter answered_right (zip qs [0 ..< length qs]))
   \<and> statistics (Some qs) ss =
       Some \<lparr>totalQuestions = length qs,
             answered = length (filter (\<lambda>q. user_answer q \<noteq> [] \<and> js_trim (user_answer q) \<noteq> []) qs),
             stat_correctAnswers = length (filter answered_right (zip qs [0 ..< length qs])),
             averageScore =
               (if 0 < length (filter (counted ss) (zip qs [0 ..< length qs]))
                then sum_list (map (contribution ss) (zip qs [0 ..< length qs]))
                       / of_nat (length (filter (counted ss) (zip qs [0 ..< length qs])))
                else 0),
             stat_scoredQuestions = length (filter (counted ss) (zip qs [0 ..< length qs]))\<rparr>
   \<and> statistics (Some qs) (AList.update i 0 ss) = statistics (Some qs) (AList.delete i ss)
   \<and> slider_value ss i q = given_score (map_of ss i) (user_score q)
   \<and> statistics (Some reviewed_questions) buffered_scores =
       Some \<lparr>totalQuestions = 4, answered = 4, stat_correctAnswers = 1, averageScore = 60,
             stat_scoredQuestions = 3\<rparr>
   \<and> statistics (Some reviewed_questions) (AList.delete 2 buffered_scores) =
       statistics (Some reviewed_questions) buffered_scores
   \<and> slider_value buffered_scores 2 (reviewed_questions ! 2) = 0
   \<and> slider_value buffered_scores 3 (reviewed_questions ! 3) = 80"
proof -
  have loop: "scoredQuestions (stats_loop ss qs) = length (filter (counted ss) (zip qs [0 ..< length qs]))
      \<and> totalScore (stats_loop ss qs) = sum_list (map (contribution ss) (zip qs [0 ..< length qs]))
      \<and> correctAnswers (stats_loop ss qs) = length (filter answered_right (zip qs [0 ..< length qs]))"
    using stats_foldl_counts [of ss "\<lparr>totalScore = 0, scoredQuestions = 0, correctAnswers = 0\<rparr>"
        "zip qs [0 ..< length qs]"]
    by (simp add: stats_loop_def)
  then have whole: "statistics (Some qs) ss =
       Some \<lparr>totalQuestions = length qs,
             answered = length (filter (\<lambda>q. user_answer q \<noteq> [] \<and> js_trim (user_answer q) \<noteq> []) qs),
             stat_correctAnswers = length (filter answered_right (zip qs [0 ..< length qs])),
             averageScore =
               (if 0 < length (filter (counted ss) (zip qs [0 ..< length qs]))
                then sum_list (map (contribution ss) (zip qs [0 ..< length qs]))
                       / of_nat (length (filter (counted ss) (zip qs [0 ..< length qs])))
                else 0),
             stat_scoredQuestions = length (filter (counted ss) (zip qs [0 ..< length qs]))\<rparr>"
    by (simp add: statistics_def Let_def)
  have z: "statistics (Some qs) (AList.update i 0 ss) = statistics (Some qs) (AList.delete i ss)"
    by (simp add: statistics_def stats_loop_def stats_step_zero_buffered)
  have sl: "slider_value ss i q = given_score (map_of ss i) (user_score q)"
    by (auto simp: slider_value_def num_or_def given_score_def is_truthy_num_def
        split: option.split)
  have ex1: "statistics (Some reviewed_questions) buffered_scores =
       Some \<lparr>totalQuestions = 4, answered = 4, stat_correctAnswers = 1, averageScore = 60,
             stat_scoredQuestions = 3\<rparr>"
    by code_simp
  have ex2: "statistics (Some reviewed_questions) (AList.delete 2 buffered_scores) =
       statistics (Some reviewed_questions) buffered_scores"
    by code_simp
  have ex3: "slider_value buffered_scores 2 (reviewed_questions ! 2) = 0"
    "slider_value buffered_scores 3 (reviewed_questions ! 3) = 80"
    by code_simp+
  from loop whole z sl ex1 ex2 ex3 show ?thesis by blast
qed

section \<open>The countdown of a quiz\<close>

lemma requests_of_append: "requests_of (a @ b) = requests_of a @ requests_of b"
  by (induction a rule: requests_of.induct) simp_all

lemma run_quiz_Cons:
  "fst (run_quiz (e # es) s) = fst (run_quiz es (fst (quiz_step e s)))"
  "snd (run_quiz (e # es) s) = snd (quiz_step e s) @ snd (run_quiz es (fst (quiz_step e s)))"
  by (simp_all add: split_beta)

lemma ticks_in_Cons: "ticks_in (e # es) = (if e = Tick then 1 else 0) + ticks_in es"
  by (simp add: ticks_in_def)

lemma user_event_keeps_timer:
  assumes "e \<noteq> Tick"
  shows "timeRemaining (fst (quiz_step e s)) = timeRemaining s
    \<and> isSubmitted (fst (quiz_step e s)) = isSubmitted s
    \<and> timer (fst (quiz_step e s)) = timer s
    \<and> snd (quiz_step e s) = []"
  using assms
  by (cases e)
     (simp_all add: handleAnswerChange_def handleMultiSelectChange_def goToQuestion_def
        rerender_def Let_def)

lemma tick_counting:
  assumes "timeRemaining s = Some t" and "1 < t" and "\<not> isSubmitted s" and "timer s = Some cl"
  shows "tick s = (s\<lparr>timeRemaining := Some (t - 1),
                     timer := Some \<lparr>closure_answers = answers s, closure_isSubmitted = False\<rparr>\<rparr>, [])"
  using assms by (simp add: tick_def rerender_def countdown_effect_def)

lemma tick_final:
  assumes "timeRemaining s = Some 1" and "\<not> isSubmitted s" and "timer s = Some cl"
    and "\<not> closure_isSubmitted cl"
  shows "tick s = (s\<lparr>timeRemaining := Some 0, timer := None\<rparr>,
                   [Toast \<lparr>title = ''Time's up!'',
                           description = ''Your test is being submitted automatically.'',
                           destructive = True\<rparr>,
                    Request \<lparr>sub_answers = closure_answers cl, sub_scores = []\<rparr>])"
  using assms
  by (simp add: tick_def rerender_def countdown_effect_def handleAutoSubmit_def
      handleSubmit_with_def)

lemma tick_stopped: "timer s = None \<Longrightarrow> tick s = (s, [])"
  by (simp add: tick_def)

lemma step_phase:
  assumes "phase t s"
  shows "phase (t - (if e = Tick then 1 else 0)) (fst (quiz_step e s))
    \<and> length (requests_of (snd (quiz_step e s))) = (if e = Tick \<and> t = 1 then 1 else 0)"
proof (cases "e = Tick")
  case False
  with user_event_keeps_timer [OF False, of s] assms show ?thesis
    by (simp add: phase_def)
next
  case True
  from assms have tr: "timeRemaining s = Some (int t)" and ns: "\<not> isSubmitted s"
    by (simp_all add: phase_def)
  from assms have stopped: "timer s = None" if "t = 0"
    using that by (simp add: phase_def)
  from assms have running: "\<exists>cl. timer s = Some cl \<and> \<not> closure_isSubmitted cl" if "t \<noteq> 0"
    using that by (cases "timer s") (simp_all add: phase_def)
  consider "t = 0" | "t = 1" | "1 < t" by linarith
  then show ?thesis
  proof cases
    case 1
    with stopped tr ns True show ?thesis by (simp add: phase_def tick_stopped)
  next
    case 2
    with running obtain cl where cl: "timer s = Some cl" "\<not> closure_isSubmitted cl"
      by auto
    from tr 2 have "timeRemaining s = Some 1" by simp
    from tick_final [OF this ns cl] 2 True ns show ?thesis
      by (simp add: phase_def)
  next
    case 3
    with running obtain cl where cl: "timer s = Some cl"
      by auto
    from 3 have "1 < int t" by simp
    from tick_counting [OF tr this ns cl] 3 True ns show ?thesis
      by (simp add: phase_def of_nat_diff)
  qed
qed

lemma run_phase:
  "phase t s \<Longrightarrow>
     phase (t - ticks_in evs) (fst (run_quiz evs s))
     \<and> length (requests_of (snd (run_quiz evs s))) = (if 0 < t \<and> t \<le> ticks_in evs then 1 else 0)"
proof (induction evs arbitrary: t s)
  case Nil
  then show ?case by (auto simp: ticks_in_def)
next
  case (Cons e es)
  let ?t1 = "t - (if e = Tick then 1 else 0)"
  from step_phase [OF Cons.prems, of e]
  have p1: "phase ?t1 (fst (quiz_step e s))"
    and r1: "length (requests_of (snd (quiz_step e s))) = (if e = Tick \<and> t = 1 then 1 else 0)"
    by simp_all
  from Cons.IH [OF p1]
  have p2: "phase (?t1 - ticks_in es) (fst (run_quiz es (fst (quiz_step e s))))"
    and r2: "length (requests_of (snd (run_quiz es (fst (quiz_step e s))))) =
              (if 0 < ?t1 \<and> ?t1 \<le> ticks_in es then 1 else 0)"
    by simp_all
  have "phase (t - ticks_in (e # es)) (fst (run_quiz (e # es) s))"
    using p2 by (simp only: run_quiz_Cons ticks_in_Cons diff_diff_left)
  moreover have "length (requests_of (snd (run_quiz (e # es) s))) =
      (if 0 < t \<and> t \<le> ticks_in (e # es) then 1 else 0)"
    using r1 r2
    by (auto simp: run_quiz_Cons ticks_in_Cons requests_of_append
        split: if_splits simp del: run_quiz.simps)
  ultimately show ?case by simp
qed

lemma run_quiz_append:
  "fst (run_quiz (a @ b) s) = fst (run_quiz b (fst (run_quiz a s)))"
  "snd (run_quiz (a @ b) s) = snd (run_quiz a s) @ snd (run_quiz b (fst (run_quiz a s)))"
  by (induction a arbitrary: s) (simp_all add: split_beta)

lemma no_requests: "length (requests_of fx) = 0 \<Longrightarrow> requests_of fx = []"
  by simp

lemma loadTest_phase:
  assumes "0 < estimated_time"
  shows "phase (nat (estimated_time * 60)) (loadTest estimated_time n initial_quiz)"
  using assms
  by (simp add: phase_def loadTest_def initial_quiz_def rerender_def countdown_effect_def Let_def)

text \<open>
  C2 says that when the countdown reaches zero the automatic submission carries the
  answer map that exists at that moment. The code does not do that for an answer given in
  the last second: the interval calls the \<open>handleAutoSubmit\<close> of the render of the last
  tick. In a one-minute test of three questions, with 59 seconds passed, the countdown
  stands at \<open>1\<close>; the user answers question 1 with \<open>A\<close>, which is then in the answer
  map; the 60th second sends one submission, and its answer map is empty. The manual
  path, \<open>handleSubmit\<close>, sends the map with the answer in it.
\<close>

theorem autosubmit_misses_last_second_answer:
  "timeRemaining one_minute_quiz = Some 60
   \<and> timeRemaining (fst (run_quiz last_second_answer one_minute_quiz)) = Some 1
   \<and> answers (fst (run_quiz last_second_answer one_minute_quiz)) = [(0, ''A'')]
   \<and> requests_of (snd (run_quiz last_second_answer one_minute_quiz)) = []
   \<and> requests_of (snd (run_quiz (last_second_answer @ [Tick]) one_minute_quiz)) =
       [\<lparr>sub_answers = [], sub_scores = []\<rparr>]
   \<and> requests_of (snd (handleSubmit (fst (run_quiz last_second_answer one_minute_quiz)))) =
       [\<lparr>sub_answers = [(0, ''A'')], sub_scores = []\<rparr>]"
  by code_simp

text \<open>
  What the countdown does as the claim says, for a test with a positive estimated time:
  it starts at \<open>estimated_time * 60\<close> seconds; whatever the user does in between, it
  stands at that number less the seconds passed, and at \<open>0\<close> once they have all passed;
  no submission is sent before the last second has passed and exactly one from then on.
  The answers that submission carries are those of the render of the last tick before it.
\<close>

lemma countdown_submits_once:
  assumes "0 < estimated_time" and "ticks_in evs0 + 2 = nat (estimated_time * 60)"
  shows "timeRemaining (loadTest estimated_time n initial_quiz) = Some (estimated_time * 60)
   \<and> timeRemaining (fst (run_quiz evs (loadTest estimated_time n initial_quiz))) =
       Some (max 0 (estimated_time * 60 - int (ticks_in evs)))
   \<and> length (requests_of (snd (run_quiz evs (loadTest estimated_time n initial_quiz)))) =
       (if ticks_in evs < nat (estimated_time * 60) then 0 else 1)
   \<and> requests_of (snd (run_quiz (evs0 @ [Tick, Tick] @ later)
        (loadTest estimated_time n initial_quiz))) =
       [\<lparr>sub_answers = answers (fst (run_quiz evs0 (loadTest estimated_time n initial_quiz))),
         sub_scores = []\<rparr>]"
proof -
  let ?start = "loadTest estimated_time n initial_quiz"
  let ?T = "nat (estimated_time * 60)"
  from assms(1) have T: "0 < ?T" "int ?T = estimated_time * 60" by simp_all
  have p0: "phase ?T ?start" using assms(1) by (rule loadTest_phase)
  then have first: "timeRemaining ?start = Some (estimated_time * 60)"
    using T by (simp add: phase_def)
  from run_phase [OF p0, of evs]
  have pe: "phase (?T - ticks_in evs) (fst (run_quiz evs ?start))"
    and re: "length (requests_of (snd (run_quiz evs ?start))) =
              (if 0 < ?T \<and> ?T \<le> ticks_in evs then 1 else 0)"
    by simp_all
  from pe have "timeRemaining (fst (run_quiz evs ?start)) = Some (int (?T - ticks_in evs))"
    by (simp add: phase_def)
  moreover have "int (?T - ticks_in evs) = max 0 (estimated_time * 60 - int (ticks_in evs))"
    using T by linarith
  ultimately have second: "timeRemaining (fst (run_quiz evs ?start)) =
       Some (max 0 (estimated_time * 60 - int (ticks_in evs)))"
    by simp
  from re T have third: "length (requests_of (snd (run_quiz evs ?start))) =
       (if ticks_in evs < ?T then 0 else 1)"
    by auto
  let ?s1 = "fst (run_quiz evs0 ?start)"
  from assms(2) have k0: "?T - ticks_in evs0 = 2" "\<not> ?T \<le> ticks_in evs0" by linarith+
  from run_phase [OF p0, of evs0]
  have "phase 2 ?s1 \<and> length (requests_of (snd (run_quiz evs0 ?start))) = 0"
    by (simp only: k0 simp_thms if_False)
  then have p1: "phase 2 ?s1" and r1: "requests_of (snd (run_quiz evs0 ?start)) = []"
    by simp_all
  from p1 have tr1: "timeRemaining ?s1 = Some 2" and ns1: "\<not> isSubmitted ?s1"
    by (simp_all add: phase_def)
  from p1 obtain cl where cl: "timer ?s1 = Some cl"
    by (cases "timer ?s1") (simp_all add: phase_def)
  let ?s2 = "?s1\<lparr>timeRemaining := Some 1,
                  timer := Some \<lparr>closure_answers = answers ?s1, closure_isSubmitted = False\<rparr>\<rparr>"
  have t1: "tick ?s1 = (?s2, [])"
    using tick_counting [OF tr1 _ ns1 cl] by simp
  let ?s3 = "?s2\<lparr>timeRemaining := Some 0, timer := None\<rparr>"
  have t2: "requests_of (snd (tick ?s2)) = [\<lparr>sub_answers = answers ?s1, sub_scores = []\<rparr>]"
    and s3: "fst (tick ?s2) = ?s3"
    using ns1
    by (simp_all add: tick_final [of ?s2 "\<lparr>closure_answers = answers ?s1, closure_isSubmitted = False\<rparr>"])
  from ns1 have "phase 0 ?s3" by (simp add: phase_def)
  from run_phase [OF this, of later]
  have r3: "requests_of (snd (run_quiz later ?s3)) = []"
    by (simp add: no_requests)
  have "requests_of (snd (run_quiz (evs0 @ [Tick, Tick] @ later) ?start)) =
      [\<lparr>sub_answers = answers ?s1, sub_scores = []\<rparr>]"
    using r1 t1 t2 s3 r3
    by (simp add: run_quiz_append run_quiz_Cons requests_of_append del: run_quiz.simps)
  with first second third show ?thesis by blast
qed

lemma countdown_submits_once_example:
  "0 < (1::int) \<and> ticks_in early_answer + 2 = nat (1 * 60)
   \<and> timeRemaining one_minute_quiz = Some 60
   \<and> requests_of (snd (run_quiz (early_answer @ [Tick, Tick] @ after_time) one_minute_quiz)) =
       [\<lparr>sub_answers = [(0, ''A'')], sub_scores = []\<rparr>]"
proof -
  have h1: "0 < (1::int)" by simp
  have h2: "ticks_in early_answer + 2 = nat (1 * 60)" by code_simp
  have a: "answers (fst (run_quiz early_answer (loadTest 1 3 initial_quiz))) = [(0, ''A'')]"
    by code_simp
  from countdown_submits_once [OF h1 h2, of 3 "[]" after_time] a h1 h2
  show ?thesis by (simp add: one_minute_quiz_def)
qed

end
